theory Spec2Isabelle
  imports Main
begin

section \<open>The data model of the two stores\<close>

text \<open>
  The repository holds two zustand stores, \<open>TicStore\<close> and \<open>SuggestionStore\<close>. Every
  action of a store is an async function that reads the store with \<open>get()\<close>, replaces it
  with \<open>set(produce(...))\<close>, and suspends only at \<open>await fetch(...)\<close> and at the storage
  calls. The embedding passes the state explicitly: an action takes the world before the
  call and returns the world after the promise has settled, together with what the
  promise settled to. What the outside decides (the answer of the server, the time the
  answer takes, the identifier \<open>uuid.v4()\<close> draws) is an argument of the action.

  A \<open>Date\<close> is its time value, the milliseconds since the epoch that \<open>Date.now()\<close> and
  \<open>getTime()\<close> return; the numbers of the records are integers.
\<close>

type_synonym date = int

record TicLog =
  log_id :: string
  log_notes :: string
  log_userId :: string
  log_intensity :: int
  log_ticTypeId :: string
  log_timeOfDay :: string
  log_timestamp :: date

text \<open>\<open>Omit<TicLog, 'id' | 'timestamp'>\<close>, the argument of \<open>logTic\<close>.\<close>

record LogData =
  in_notes :: string
  in_userId :: string
  in_intensity :: int
  in_ticTypeId :: string
  in_timeOfDay :: string

text \<open>\<open>Partial<Omit<TicLog, 'id'>>\<close>, the argument of \<open>updateTicLog\<close>.\<close>

record LogUpdates =
  up_notes :: "string option"
  up_userId :: "string option"
  up_intensity :: "int option"
  up_ticTypeId :: "string option"
  up_timeOfDay :: "string option"
  up_timestamp :: "date option"

record TicType =
  tt_id :: string
  tt_name :: string
  tt_category :: string
  tt_isCustom :: bool
  tt_description :: string

record Suggestion =
  sg_id :: string
  sg_title :: string
  sg_source :: string
  sg_category :: string
  sg_createdAt :: date
  sg_ticTypeId :: string
  sg_description :: string
  sg_isAIGenerated :: bool

record UserSuggestionFeedback =
  fb_id :: string
  fb_notes :: string
  fb_userId :: string
  fb_lastUsedDate :: date
  fb_suggestionId :: string
  fb_effectiveness :: int
  fb_isCurrentlyUsing :: bool

text \<open>\<open>Omit<UserSuggestionFeedback, 'id'>\<close>, the argument of \<open>provideFeedback\<close>.\<close>

record FeedbackData =
  fd_notes :: string
  fd_userId :: string
  fd_lastUsedDate :: date
  fd_suggestionId :: string
  fd_effectiveness :: int
  fd_isCurrentlyUsing :: bool

record FilterSettings =
  startDate :: date
  endDate :: date
  filter_timeOfDay :: "string list"
  intensityRange :: "int \<times> int"

record CacheEntry =
  logs :: "TicLog list"
  cachedAt :: date

record TicStoreState =
  error :: "string option"
  ticLogs :: "string \<rightharpoonup> TicLog"
  lastSync :: "date option"
  ticTypes :: "string \<rightharpoonup> TicType"
  isLoading :: bool
  recentLogs :: "TicLog list"
  pendingLogs :: "TicLog list"
  selectedTicType :: "string option"
  filterSettings :: FilterSettings
  cachedHistoryRanges :: "string \<rightharpoonup> CacheEntry"

text \<open>
  A value as the runtime has it, whatever the interface declares: a JSON value or a
  \<open>Date\<close> object (\<open>None\<close> is the invalid date); an object is the list of its
  properties in insertion order. The stores are typed below by their interfaces, with
  one exception: \<open>lastAIGeneration\<close> is declared \<open>Record<string, Date>\<close>, the
  store reads its values back and calls \<open>getTime()\<close> on them, and after a reload
  they are what \<open>JSON.parse\<close> returned. That field holds runtime values.
\<close>

datatype jsval =
    JNull
  | JBool bool
  | JNum int
  | JStr string
  | JArr "jsval list"
  | JObj "(string \<times> jsval) list"
  | JDate "int option"

fun truthy :: "jsval \<Rightarrow> bool" where
  "truthy JNull = False"
| "truthy (JBool b) = b"
| "truthy (JNum n) = (n \<noteq> 0)"
| "truthy (JStr s) = (s \<noteq> [])"
| "truthy _ = True"

datatype op_type = feedback | sync

text \<open>
  \<open>QueuedOperation.data\<close> is typed \<open>any\<close>; the only operation the code ever queues
  carries the feedback record, and the data of a \<open>sync\<close> operation is never read.
\<close>

record QueuedOperation =
  op_id :: string
  op_kind :: op_type
  op_data :: UserSuggestionFeedback
  op_timestamp :: date

record SuggestionStoreState =
  sug_error :: "string option"
  sug_lastSync :: "date option"
  sug_isLoading :: bool
  suggestions :: "string \<rightharpoonup> Suggestion"
  userFeedback :: "string \<rightharpoonup> UserSuggestionFeedback"
  suggestionsByTicType :: "string \<rightharpoonup> string list"
  operationQueue :: "QueuedOperation list"
  pendingFeedback :: "string \<rightharpoonup> UserSuggestionFeedback"
  isSyncing :: bool
  lastAIGeneration :: "string \<rightharpoonup> jsval"

text \<open>The object \<open>persistState\<close> serialises: six fields of the suggestion store.\<close>

record PersistedData =
  p_suggestions :: "string \<rightharpoonup> Suggestion"
  p_userFeedback :: "string \<rightharpoonup> UserSuggestionFeedback"
  p_suggestionsByTicType :: "string \<rightharpoonup> string list"
  p_lastSync :: "date option"
  p_operationQueue :: "QueuedOperation list"
  p_lastAIGeneration :: "string \<rightharpoonup> jsval"

text \<open>
  What a store hands to \<open>JSON.stringify\<close> before \<open>saveString\<close>: the tic store passes
  \<open>get()\<close>, its whole state (the actions are functions, which \<open>JSON.stringify\<close> skips);
  the suggestion store passes the object \<open>persistState\<close> builds.
\<close>

datatype snapshot = TicSnapshot TicStoreState | SuggestionSnapshot PersistedData

text \<open>The remote calls, one constructor for each \<open>fetch\<close> of the two stores.\<close>

datatype request =
    PostLog TicLog
  | PostSync "TicLog list"
  | GetHistory string string
  | PatchLog string LogUpdates
  | PostFeedback UserSuggestionFeedback
  | PostGenerate string "TicLog list"

text \<open>
  How an \<open>await fetch(...)\<close> followed by \<open>response.json()\<close> ends: \<open>fetch\<close> throws
  (\<open>Unreachable\<close>), the response is not \<open>ok\<close> and the action throws (\<open>Rejected\<close>), or
  the body is read (\<open>Accepted\<close>). The first two reach the same \<open>catch\<close>.
\<close>

datatype 'a outcome = Unreachable | Rejected | Accepted 'a

datatype thrown = Error string

record world =
  tic :: TicStoreState
  sug :: SuggestionStoreState
  rootUserId :: "string option"
  clock :: date
  requests :: "request list"
  storage :: "string \<rightharpoonup> snapshot"

text \<open>
  \<open>fetch\<close>: the request is issued, and the action resumes \<open>latency\<close> milliseconds later.
\<close>

definition fetch :: "request \<Rightarrow> nat \<Rightarrow> world \<Rightarrow> world" where
  "fetch r latency w = w\<lparr>requests := requests w @ [r], clock := clock w + int latency\<rparr>"

text \<open>
  Modelled from the spec: \<open>saveString\<close> of \<open>app/utils/storage/storage\<close> is not among the
  source files; the spec gives it as \<open>save(key, string) -> void\<close>, a write of the value
  under the key.
\<close>

definition saveString :: "string \<Rightarrow> snapshot \<Rightarrow> world \<Rightarrow> world" where
  "saveString key v w = w\<lparr>storage := (storage w)(key \<mapsto> v)\<rparr>"

section \<open>TicStore\<close>

definition TIC_STORAGE_KEY :: string where
  "TIC_STORAGE_KEY = ''@tic_store''"

definition CACHE_DURATION :: int where
  "CACHE_DURATION = 1000 * 60 * 30"

definition set_tic :: "(TicStoreState \<Rightarrow> TicStoreState) \<Rightarrow> world \<Rightarrow> world" where
  "set_tic f w = w\<lparr>tic := f (tic w)\<rparr>"

text \<open>\<open>!userId\<close>: \<open>null\<close> and the empty string are falsy.\<close>

fun authenticated :: "string option \<Rightarrow> bool" where
  "authenticated None = False"
| "authenticated (Some u) = (u \<noteq> [])"

text \<open>
  \<open>{id: tempId, userId, timestamp: new Date(), ...logData}\<close>: the input is spread
  last, so the \<open>userId\<close> of the new log is the input's, not the root store's.
\<close>

definition newLog_of :: "LogData \<Rightarrow> string \<Rightarrow> date \<Rightarrow> TicLog" where
  "newLog_of logData tempId now =
     \<lparr>log_id = tempId, log_notes = in_notes logData, log_userId = in_userId logData,
      log_intensity = in_intensity logData, log_ticTypeId = in_ticTypeId logData,
      log_timeOfDay = in_timeOfDay logData, log_timestamp = now\<rparr>"

definition logTic ::
  "LogData \<Rightarrow> string \<Rightarrow> TicLog outcome \<Rightarrow> nat \<Rightarrow> world \<Rightarrow> (thrown + unit) \<times> world" where
  "logTic logData tempId reply latency w =
     (if \<not> authenticated (rootUserId w)
      then (Inr (), set_tic (\<lambda>s. s\<lparr>error := Some ''User not authenticated''\<rparr>) w)
      else
        let newLog = newLog_of logData tempId (clock w);
            w1 = set_tic (\<lambda>s. s\<lparr>ticLogs := (ticLogs s)(tempId \<mapsto> newLog),
                                 pendingLogs := pendingLogs s @ [newLog],
                                 recentLogs := take 10 (newLog # recentLogs s)\<rparr>) w;
            w2 = fetch (PostLog newLog) latency w1
        in case reply of
             Accepted savedLog \<Rightarrow>
               (Inr (), set_tic (\<lambda>s. s\<lparr>
                  ticLogs := ((ticLogs s)(tempId := None))(log_id savedLog \<mapsto> savedLog),
                  pendingLogs := filter (\<lambda>l. log_id l \<noteq> tempId) (pendingLogs s),
                  recentLogs := map (\<lambda>l. if log_id l = tempId then savedLog else l)
                                    (recentLogs s)\<rparr>) w2)
           | _ \<Rightarrow>
               (Inr (), set_tic (\<lambda>s. s\<lparr>
                  error := Some ''Failed to sync tic log'',
                  ticLogs := (ticLogs s)(tempId := None),
                  recentLogs := filter (\<lambda>l. log_id l \<noteq> tempId) (recentLogs s)\<rparr>) w2))"

definition syncTicLogs :: "TicLog list outcome \<Rightarrow> nat \<Rightarrow> world \<Rightarrow> (thrown + unit) \<times> world" where
  "syncTicLogs reply latency w =
     (let w1 = set_tic (\<lambda>s. s\<lparr>isLoading := True\<rparr>) w;
          pending = pendingLogs (tic w1)
      in if pending = [] then (Inr (), set_tic (\<lambda>s. s\<lparr>isLoading := False\<rparr>) w1)
         else
           let w2 = fetch (PostSync pending) latency w1;
               w3 = (case reply of
                       Accepted syncedLogs \<Rightarrow>
                         let w' = set_tic (\<lambda>s. s\<lparr>
                                    pendingLogs := [],
                                    lastSync := Some (clock w2),
                                    ticLogs := fold (\<lambda>l m. m(log_id l \<mapsto> l)) syncedLogs
                                                 (ticLogs s)\<rparr>) w2
                         in saveString TIC_STORAGE_KEY (TicSnapshot (tic w')) w'
                     | _ \<Rightarrow> set_tic (\<lambda>s. s\<lparr>error := Some ''Failed to sync tic logs''\<rparr>) w2)
           in (Inr (), set_tic (\<lambda>s. s\<lparr>isLoading := False\<rparr>) w3))"

text \<open>
  \<open>toISOString\<close> is the runtime's; the cache key is built from whatever it prints, so
  the model takes it as the argument \<open>toISO\<close>.
\<close>

definition cacheKey :: "(date \<Rightarrow> string) \<Rightarrow> date \<Rightarrow> date \<Rightarrow> string" where
  "cacheKey toISO from until = toISO from @ ''-'' @ toISO until"

definition fetchTicHistory ::
  "(date \<Rightarrow> string) \<Rightarrow> date \<Rightarrow> date \<Rightarrow> TicLog list outcome \<Rightarrow> nat \<Rightarrow> world
     \<Rightarrow> TicLog list \<times> world" where
  "fetchTicHistory toISO from until reply latency w =
     (let w1 = set_tic (\<lambda>s. s\<lparr>isLoading := True\<rparr>) w;
          w2 = fetch (GetHistory (toISO from) (toISO until)) latency w1
      in case reply of
           Accepted ls \<Rightarrow>
             (ls, set_tic (\<lambda>s. s\<lparr>isLoading := False\<rparr>)
                    (set_tic (\<lambda>s. s\<lparr>cachedHistoryRanges :=
                        (cachedHistoryRanges s)(cacheKey toISO from until \<mapsto>
                           \<lparr>logs = ls, cachedAt = clock w2\<rparr>)\<rparr>) w2))
         | _ \<Rightarrow>
             ([], set_tic (\<lambda>s. s\<lparr>isLoading := False\<rparr>)
                    (set_tic (\<lambda>s. s\<lparr>error := Some ''Failed to fetch tic history''\<rparr>) w2)))"

definition getTicHistory ::
  "(date \<Rightarrow> string) \<Rightarrow> date \<Rightarrow> date \<Rightarrow> TicLog list outcome \<Rightarrow> nat \<Rightarrow> world
     \<Rightarrow> TicLog list \<times> world" where
  "getTicHistory toISO from until reply latency w =
     (case cachedHistoryRanges (tic w) (cacheKey toISO from until) of
        Some cached \<Rightarrow>
          if clock w - cachedAt cached < CACHE_DURATION then (logs cached, w)
          else fetchTicHistory toISO from until reply latency w
      | None \<Rightarrow> fetchTicHistory toISO from until reply latency w)"

definition updateTicLog ::
  "string \<Rightarrow> LogUpdates \<Rightarrow> TicLog outcome \<Rightarrow> nat \<Rightarrow> world \<Rightarrow> (thrown + unit) \<times> world" where
  "updateTicLog logId updates reply latency w =
     (let w1 = set_tic (\<lambda>s. s\<lparr>isLoading := True\<rparr>) w;
          w2 = fetch (PatchLog logId updates) latency w1;
          w3 = (case reply of
                  Accepted updatedLog \<Rightarrow>
                    set_tic (\<lambda>s. s\<lparr>
                      ticLogs := (ticLogs s)(logId \<mapsto> updatedLog),
                      recentLogs := map (\<lambda>l. if log_id l = logId then updatedLog else l)
                                        (recentLogs s)\<rparr>) w2
                | _ \<Rightarrow> set_tic (\<lambda>s. s\<lparr>error := Some ''Failed to update tic log''\<rparr>) w2)
      in (Inr (), set_tic (\<lambda>s. s\<lparr>isLoading := False\<rparr>) w3))"

section \<open>SuggestionStore\<close>

definition SUGGESTION_STORAGE_KEY :: string where
  "SUGGESTION_STORAGE_KEY = ''suggestion_store_v1''"

text \<open>The literal \<open>3600000\<close> of \<open>generatePersonalizedSuggestions\<close>, one hour.\<close>

definition COOLDOWN :: int where
  "COOLDOWN = 3600000"

definition set_sug :: "(SuggestionStoreState \<Rightarrow> SuggestionStoreState) \<Rightarrow> world \<Rightarrow> world" where
  "set_sug f w = w\<lparr>sug := f (sug w)\<rparr>"

definition persistedData :: "SuggestionStoreState \<Rightarrow> PersistedData" where
  "persistedData state =
     \<lparr>p_suggestions = suggestions state, p_userFeedback = userFeedback state,
      p_suggestionsByTicType = suggestionsByTicType state, p_lastSync = sug_lastSync state,
      p_operationQueue = operationQueue state, p_lastAIGeneration = lastAIGeneration state\<rparr>"

text \<open>\<open>persistState(get())\<close>: the argument is the store as it is at the call.\<close>

definition persistState :: "world \<Rightarrow> world" where
  "persistState w =
     saveString SUGGESTION_STORAGE_KEY (SuggestionSnapshot (persistedData (sug w))) w"

text \<open>
  What one run of \<open>provideFeedback\<close> takes from outside: the two identifiers
  \<open>uuid.v4()\<close> draws (the second only when the save fails), the answer to the
  \<open>POST\<close>, whose body the action does not read, and the time the answer takes.
\<close>

record Attempt =
  att_feedbackId :: string
  att_queueId :: string
  att_answer :: "unit outcome"
  att_latency :: nat

definition newFeedback_of :: "FeedbackData \<Rightarrow> string \<Rightarrow> string \<Rightarrow> UserSuggestionFeedback" where
  "newFeedback_of fd fid userId =
     \<lparr>fb_id = fid, fb_notes = fd_notes fd, fb_userId = userId,
      fb_lastUsedDate = fd_lastUsedDate fd, fb_suggestionId = fd_suggestionId fd,
      fb_effectiveness = fd_effectiveness fd, fb_isCurrentlyUsing = fd_isCurrentlyUsing fd\<rparr>"

definition provideFeedback :: "FeedbackData \<Rightarrow> Attempt \<Rightarrow> world \<Rightarrow> (thrown + unit) \<times> world" where
  "provideFeedback fd a w =
     (case rootUserId w of
        None \<Rightarrow> (Inl (Error ''User not authenticated''), w)
      | Some userId \<Rightarrow>
          if userId = [] then (Inl (Error ''User not authenticated''), w)
          else
            let newFeedback = newFeedback_of fd (att_feedbackId a) userId;
                w1 = set_sug (\<lambda>s. s\<lparr>
                       pendingFeedback := (pendingFeedback s)(att_feedbackId a \<mapsto> newFeedback),
                       userFeedback := (userFeedback s)(att_feedbackId a \<mapsto> newFeedback)\<rparr>) w;
                w2 = fetch (PostFeedback newFeedback) (att_latency a) w1
            in (case att_answer a of
                 Accepted _ \<Rightarrow>
                   (Inr (), persistState (set_sug (\<lambda>s. s\<lparr>
                      pendingFeedback := (pendingFeedback s)(att_feedbackId a := None)\<rparr>) w2))
               | _ \<Rightarrow>
                   (Inr (), set_sug (\<lambda>s. s\<lparr>
                      sug_error := Some ''Failed to save feedback'',
                      userFeedback := (userFeedback s)(att_feedbackId a := None),
                      operationQueue := operationQueue s @
                        [\<lparr>op_id = att_queueId a, op_kind = feedback, op_data = newFeedback,
                          op_timestamp = clock w2\<rparr>]\<rparr>) w2)))"

text \<open>
  \<open>provideFeedback(op.data)\<close>: the data of a queued operation is a whole feedback
  record, and \<open>{...feedback, id: feedbackId, userId}\<close> overwrites its \<open>id\<close> and its
  \<open>userId\<close>, so the call reads the other fields only.
\<close>

definition data_of :: "UserSuggestionFeedback \<Rightarrow> FeedbackData" where
  "data_of f =
     \<lparr>fd_notes = fb_notes f, fd_userId = fb_userId f, fd_lastUsedDate = fb_lastUsedDate f,
      fd_suggestionId = fb_suggestionId f, fd_effectiveness = fb_effectiveness f,
      fd_isCurrentlyUsing = fb_isCurrentlyUsing f\<rparr>"

text \<open>
  The loop \<open>for (const op of operations)\<close>; the \<open>i\<close>-th operation of the snapshot
  is replayed with the attempt \<open>env i\<close>. An exception of \<open>provideFeedback\<close> ends the
  loop.
\<close>

fun replay ::
  "QueuedOperation list \<Rightarrow> (nat \<Rightarrow> Attempt) \<Rightarrow> nat \<Rightarrow> world \<Rightarrow> (thrown + unit) \<times> world" where
  "replay [] env i w = (Inr (), w)"
| "replay (op # ops) env i w =
     (if op_kind op = feedback
      then (case provideFeedback (data_of (op_data op)) (env i) w of
              (Inl e, w') \<Rightarrow> (Inl e, w')
            | (Inr _, w') \<Rightarrow> replay ops env (Suc i) w')
      else replay ops env (Suc i) w)"

text \<open>
  \<open>operations.includes(op)\<close> compares by identity, and the two sides of the test are
  not of the same kind. \<open>operations\<close> is a copy of the queue that \<open>get()\<close> returned:
  it holds the queued objects. The test runs inside the recipe of \<open>produce\<close>, in the
  callback of \<open>state.operationQueue.filter\<close>, where \<open>state\<close> is immer's draft of the
  store: an element read from a draft array is the draft immer creates for it, a proxy
  that is identical to no queued object. So the model keeps the two kinds apart, and
  \<open>array_includes\<close>, the model of \<open>Array.prototype.includes\<close>, is membership.
\<close>

datatype 'a handle = Object 'a | Draft 'a

definition array_includes :: "'a handle list \<Rightarrow> 'a handle \<Rightarrow> bool" where
  "array_includes xs x = (x \<in> set xs)"

definition syncUserFeedback :: "(nat \<Rightarrow> Attempt) \<Rightarrow> world \<Rightarrow> (thrown + unit) \<times> world" where
  "syncUserFeedback env w =
     (let state = sug w
      in if isSyncing state then (Inr (), w)
         else
           let w1 = set_sug (\<lambda>s. s\<lparr>isSyncing := True, sug_error := None\<rparr>) w;
               operations = operationQueue state
           in case replay operations env 0 w1 of
                (Inr _, w2) \<Rightarrow>
                  (Inr (), persistState (set_sug (\<lambda>s. s\<lparr>
                     operationQueue :=
                       filter (\<lambda>op. \<not> array_includes (map Object operations) (Draft op))
                         (operationQueue s),
                     sug_lastSync := Some (clock w2),
                     isSyncing := False\<rparr>) w2))
              | (Inl _, w2) \<Rightarrow>
                  (Inr (), set_sug (\<lambda>s. s\<lparr>sug_error := Some ''Sync failed'',
                                           isSyncing := False\<rparr>) w2))"

text \<open>
  The cooldown test is \<open>lastGeneration && Date.now() - lastGeneration.getTime() <
  3600000\<close>, evaluated before the \<open>try\<close>. A falsy value skips it; a \<open>Date\<close> answers
  \<open>getTime()\<close> (the invalid date with \<open>NaN\<close>, which is below nothing); any other
  truthy value has no method \<open>getTime\<close>, and the call throws a \<open>TypeError\<close> that no
  \<open>catch\<close> of the action sees.
\<close>

definition generatePersonalizedSuggestions ::
  "(date \<Rightarrow> string) \<Rightarrow> string \<Rightarrow> TicLog list outcome \<Rightarrow> nat \<Rightarrow> Suggestion list outcome \<Rightarrow> nat
     \<Rightarrow> world \<Rightarrow> (thrown + unit) \<times> world" where
  "generatePersonalizedSuggestions toISO ticTypeId historyReply historyLatency reply lat w =
     (let generate =
            (let w1 = set_sug (\<lambda>s. s\<lparr>sug_isLoading := True, sug_error := None\<rparr>) w;
                 (ticLogs, w2) = getTicHistory toISO (clock w1 - 7 * 24 * 60 * 60 * 1000)
                                   (clock w1) historyReply historyLatency w1;
                 w3 = fetch (PostGenerate ticTypeId ticLogs) lat w2
             in case reply of
                  Accepted newSuggestions \<Rightarrow>
                    (Inr (), persistState (set_sug (\<lambda>s. s\<lparr>
                       suggestions := fold (\<lambda>g m. m(sg_id g \<mapsto> g)) newSuggestions
                                        (suggestions s),
                       suggestionsByTicType := (suggestionsByTicType s)(ticTypeId \<mapsto>
                          (case suggestionsByTicType s ticTypeId of
                             Some ids \<Rightarrow> ids | None \<Rightarrow> [])
                          @ map sg_id newSuggestions),
                       lastAIGeneration := (lastAIGeneration s)(ticTypeId \<mapsto>
                          JDate (Some (clock w3))),
                       sug_isLoading := False\<rparr>) w3))
                | _ \<Rightarrow>
                    (Inr (), set_sug (\<lambda>s. s\<lparr>
                       sug_error := Some ''Failed to generate personalized suggestions'',
                       sug_isLoading := False\<rparr>) w3))
      in case lastAIGeneration (sug w) ticTypeId of
           None \<Rightarrow> generate
         | Some lastGeneration \<Rightarrow>
             if \<not> truthy lastGeneration then generate
             else (case lastGeneration of
                     JDate (Some t) \<Rightarrow>
                       if clock w - t < COOLDOWN then (Inr (), w) else generate
                   | JDate None \<Rightarrow> generate
                   | _ \<Rightarrow>
                       (Inl (Error ''TypeError: lastGeneration.getTime is not a function''),
                        w)))"

text \<open>Time passes between two calls and nothing else happens.\<close>

definition elapse :: "nat \<Rightarrow> world \<Rightarrow> world" where
  "elapse ms w = w\<lparr>clock := clock w + int ms\<rparr>"

section \<open>Loading the persisted state\<close>

text \<open>
  \<open>loadPersistedState\<close> works on what \<open>JSON.parse\<close> returns, before any field has the
  type the store's interface gives it, so this part of the model is untyped: it works
  on the values of type \<open>jsval\<close>.
\<close>

text \<open>
  \<open>v.k\<close> for a value that is not \<open>null\<close>; \<open>None\<close> is \<open>undefined\<close>. The keys read
  below (\<open>lastSync\<close>, \<open>filterSettings\<close>, \<open>startDate\<close>, \<open>endDate\<close>) are properties of
  no prototype, so only an object can have them.
\<close>

fun get_prop :: "jsval \<Rightarrow> string \<Rightarrow> jsval option" where
  "get_prop (JObj fs) k = map_of fs k"
| "get_prop _ k = None"

text \<open>\<open>obj[k] = v\<close>: an existing property keeps its place, a new one goes last.\<close>

fun assign :: "string \<Rightarrow> jsval \<Rightarrow> (string \<times> jsval) list \<Rightarrow> (string \<times> jsval) list" where
  "assign k v [] = [(k, v)]"
| "assign k v ((k', v') # fs) = (if k = k' then (k, v) # fs else (k', v') # assign k v fs)"

text \<open>The decimal digit of a number below ten.\<close>

definition digit :: "nat \<Rightarrow> char" where
  "digit n = ''0123456789'' ! (n mod 10)"

fun decimal :: "nat \<Rightarrow> string" where
  "decimal n = (if n < 10 then [digit n] else decimal (n div 10) @ [digit (n mod 10)])"

text \<open>
  The own enumerable properties \<open>{...v}\<close> copies: the properties of an object, the
  indexed elements of an array or of a string, nothing for the other values.
\<close>

fun own_properties :: "jsval \<Rightarrow> (string \<times> jsval) list" where
  "own_properties (JObj fs) = fs"
| "own_properties (JArr xs) = zip (map decimal [0..<length xs]) xs"
| "own_properties (JStr s) = zip (map decimal [0..<length s]) (map (\<lambda>c. JStr [c]) s)"
| "own_properties _ = []"

text \<open>\<open>{...a, ...v}\<close>, for the properties \<open>a\<close> collected so far.\<close>

definition spread :: "(string \<times> jsval) list \<Rightarrow> (string \<times> jsval) list \<Rightarrow> (string \<times> jsval) list" where
  "spread a fs = fold (\<lambda>(k, v). assign k v) fs a"

text \<open>\<open>a || b\<close>, with \<open>undefined\<close> on the left as \<open>None\<close>.\<close>

fun or_else :: "jsval option \<Rightarrow> jsval \<Rightarrow> jsval" where
  "or_else None b = b"
| "or_else (Some a) b = (if truthy a then a else b)"

text \<open>\<open>a?.k\<close>.\<close>

fun opt_prop :: "jsval option \<Rightarrow> string \<Rightarrow> jsval option" where
  "opt_prop None k = None"
| "opt_prop (Some JNull) k = None"
| "opt_prop (Some v) k = get_prop v k"

text \<open>
  The runtime's part is taken as arguments: \<open>parse\<close> is \<open>JSON.parse\<close> (\<open>None\<close> when
  it throws a \<open>SyntaxError\<close>), \<open>newDate\<close> is the time value of \<open>new Date(v)\<close>. The
  module is loaded at the instant \<open>t0\<close>, at which \<open>initialState\<close> reads \<open>Date.now()\<close>.
\<close>

definition tic_initial_filterSettings :: "date \<Rightarrow> (string \<times> jsval) list" where
  "tic_initial_filterSettings t0 =
     [(''startDate'', JDate (Some (t0 - 7 * 24 * 60 * 60 * 1000))),
      (''endDate'', JDate (Some t0)),
      (''timeOfDay'', JArr [JStr ''morning'', JStr ''afternoon'', JStr ''evening'', JStr ''night'']),
      (''intensityRange'', JArr [JNum 1, JNum 10])]"

definition tic_initialState :: "date \<Rightarrow> (string \<times> jsval) list" where
  "tic_initialState t0 =
     [(''error'', JNull), (''ticLogs'', JObj []), (''lastSync'', JNull), (''ticTypes'', JObj []),
      (''isLoading'', JBool False), (''recentLogs'', JArr []), (''pendingLogs'', JArr []),
      (''selectedTicType'', JNull), (''filterSettings'', JObj (tic_initial_filterSettings t0)),
      (''cachedHistoryRanges'', JObj [])]"

definition tic_loadPersistedState ::
  "(string \<Rightarrow> jsval option) \<Rightarrow> (jsval \<Rightarrow> int option) \<Rightarrow> date \<Rightarrow> string option \<Rightarrow> jsval" where
  "tic_loadPersistedState parse newDate t0 stored =
     (case stored of
        None \<Rightarrow> JObj []
      | Some content \<Rightarrow>
          if content = [] then JObj []
          else (case parse content of
                  None \<Rightarrow> JObj []
                | Some JNull \<Rightarrow> JObj []
                | Some parsed \<Rightarrow>
                    let fs = get_prop parsed ''filterSettings'';
                        initial = tic_initial_filterSettings t0
                    in JObj
                         (assign ''filterSettings''
                            (JObj
                               (assign ''endDate''
                                  (JDate (newDate (or_else (opt_prop fs ''endDate'')
                                     (JDate (Some t0)))))
                               (assign ''startDate''
                                  (JDate (newDate (or_else (opt_prop fs ''startDate'')
                                     (JDate (Some (t0 - 7 * 24 * 60 * 60 * 1000))))))
                               (spread initial
                                  (case fs of None \<Rightarrow> [] | Some v \<Rightarrow> own_properties v)))))
                         (assign ''lastSync''
                            (case get_prop parsed ''lastSync'' of
                               None \<Rightarrow> JNull
                             | Some v \<Rightarrow> if truthy v then JDate (newDate v) else JNull)
                         (own_properties parsed)))))"

text \<open>\<open>useTicStore.setState({...initialState, ...persistedState})\<close>.\<close>

definition tic_startup ::
  "(string \<Rightarrow> jsval option) \<Rightarrow> (jsval \<Rightarrow> int option) \<Rightarrow> date \<Rightarrow> string option
     \<Rightarrow> (string \<times> jsval) list" where
  "tic_startup parse newDate t0 stored =
     spread (tic_initialState t0) (own_properties (tic_loadPersistedState parse newDate t0 stored))"

definition sug_initialState :: "(string \<times> jsval) list" where
  "sug_initialState =
     [(''error'', JNull), (''lastSync'', JNull), (''isLoading'', JBool False),
      (''suggestions'', JObj []), (''userFeedback'', JObj []), (''suggestionsByTicType'', JObj []),
      (''operationQueue'', JArr []), (''pendingFeedback'', JObj []), (''isSyncing'', JBool False),
      (''lastAIGeneration'', JObj [])]"

definition sug_loadPersistedState :: "(string \<Rightarrow> jsval option) \<Rightarrow> string option \<Rightarrow> jsval" where
  "sug_loadPersistedState parse stored =
     (case stored of
        None \<Rightarrow> JObj []
      | Some content \<Rightarrow>
          if content = [] then JObj []
          else (case parse content of None \<Rightarrow> JObj [] | Some parsed \<Rightarrow> parsed))"

definition sug_startup :: "(string \<Rightarrow> jsval option) \<Rightarrow> string option \<Rightarrow> (string \<times> jsval) list" where
  "sug_startup parse stored =
     spread sug_initialState (own_properties (sug_loadPersistedState parse stored))"

text \<open>
  \<open>state.lastAIGeneration[ticTypeId]\<close> on the state the store starts with: the
  typed model's \<open>lastAIGeneration\<close> after a reload.
\<close>

definition lastAIGeneration_of :: "(string \<times> jsval) list \<Rightarrow> string \<rightharpoonup> jsval" where
  "lastAIGeneration_of state =
     (case map_of state ''lastAIGeneration'' of
        None \<Rightarrow> Map.empty
      | Some v \<Rightarrow> get_prop v)"

section \<open>What a finished drain leaves in the queue\<close>

text \<open>
  The operations a drain of the snapshot \<open>ops\<close> pushes, in the order of the replays: one
  for each \<open>feedback\<close> operation whose replay is not accepted. The pushed operation has
  the identifier and the time of the failed attempt, and its data is the feedback record
  of that attempt, under the attempt's own client-local id. \<open>uid\<close> is the identity
  the replays run under and \<open>t\<close> the time the drain starts at.
\<close>

fun requeued ::
  "QueuedOperation list \<Rightarrow> (nat \<Rightarrow> Attempt) \<Rightarrow> nat \<Rightarrow> string \<Rightarrow> date \<Rightarrow> QueuedOperation list" where
  "requeued [] env i uid t = []"
| "requeued (op # ops) env i uid t =
     (if op_kind op = feedback
      then (case att_answer (env i) of
              Accepted _ \<Rightarrow> []
            | _ \<Rightarrow> [\<lparr>op_id = att_queueId (env i), op_kind = feedback,
                     op_data = newFeedback_of (data_of (op_data op)) (att_feedbackId (env i)) uid,
                     op_timestamp = t + int (att_latency (env i))\<rparr>])
           @ requeued ops env (Suc i) uid (t + int (att_latency (env i)))
      else requeued ops env (Suc i) uid t)"

text \<open>The generation requests among the remote calls issued so far.\<close>

fun is_generate :: "request \<Rightarrow> bool" where
  "is_generate (PostGenerate _ _) = True"
| "is_generate _ = False"

definition generations :: "world \<Rightarrow> nat" where
  "generations w = length (filter is_generate (requests w))"

section \<open>Concrete states\<close>

definition log0 :: TicLog where
  "log0 = \<lparr>log_id = ''srv-1'', log_notes = [], log_userId = ''u1'', log_intensity = 5,
     log_ticTypeId = ''t1'', log_timeOfDay = ''morning'', log_timestamp = 1000\<rparr>"

definition tic0 :: TicStoreState where
  "tic0 = \<lparr>error = None, ticLogs = Map.empty, lastSync = None, ticTypes = Map.empty,
     isLoading = False, recentLogs = [], pendingLogs = [], selectedTicType = None,
     filterSettings = \<lparr>startDate = 0, endDate = 0, filter_timeOfDay = [],
       intensityRange = (1, 10)\<rparr>,
     cachedHistoryRanges = Map.empty\<rparr>"

definition sug0 :: SuggestionStoreState where
  "sug0 = \<lparr>sug_error = None, sug_lastSync = None, sug_isLoading = False,
     suggestions = Map.empty, userFeedback = Map.empty, suggestionsByTicType = Map.empty,
     operationQueue = [], pendingFeedback = Map.empty, isSyncing = False,
     lastAIGeneration = Map.empty\<rparr>"

text \<open>Both stores in their initial state, the user \<open>u1\<close> signed in.\<close>

definition world0 :: world where
  "world0 = \<lparr>tic = tic0, sug = sug0, rootUserId = Some ''u1'', clock = 1000, requests = [],
     storage = Map.empty\<rparr>"

text \<open>The same with nobody signed in.\<close>

definition world_anonymous :: world where
  "world_anonymous = world0\<lparr>rootUserId := None\<rparr>"

text \<open>The input of the spec's scenario: tic type \<open>t1\<close>, intensity 5, no notes.\<close>

definition logData0 :: LogData where
  "logData0 = \<lparr>in_notes = [], in_userId = ''u1'', in_intensity = 5, in_ticTypeId = ''t1'',
     in_timeOfDay = ''morning''\<rparr>"

definition no_updates :: LogUpdates where
  "no_updates = \<lparr>up_notes = None, up_userId = None, up_intensity = None, up_ticTypeId = None,
     up_timeOfDay = None, up_timestamp = None\<rparr>"

definition feedback0 :: FeedbackData where
  "feedback0 = \<lparr>fd_notes = [], fd_userId = ''user123'', fd_lastUsedDate = 900,
     fd_suggestionId = ''s1'', fd_effectiveness = 4, fd_isCurrentlyUsing = True\<rparr>"

text \<open>An attempt the server rejects, and one it accepts.\<close>

definition attempt_rejected :: Attempt where
  "attempt_rejected = \<lparr>att_feedbackId = ''tmp-1'', att_queueId = ''q-1'', att_answer = Rejected,
     att_latency = 20\<rparr>"

definition attempt_accepted :: Attempt where
  "attempt_accepted = \<lparr>att_feedbackId = ''tmp-2'', att_queueId = ''q-2'',
     att_answer = Accepted (), att_latency = 20\<rparr>"

text \<open>A server that rejects every replay of a drain, and one that accepts every replay.\<close>

definition all_rejected :: "nat \<Rightarrow> Attempt" where
  "all_rejected i = attempt_rejected"

definition all_accepted :: "nat \<Rightarrow> Attempt" where
  "all_accepted i = attempt_accepted"

text \<open>Ten confirmed logs in the recent list, \<open>srv-0\<close> to \<open>srv-9\<close>.\<close>

definition recent10 :: "TicLog list" where
  "recent10 = map (\<lambda>c. log0\<lparr>log_id := ''srv-'' @ [c]\<rparr>) ''0123456789''"

definition world_recent10 :: world where
  "world_recent10 = world0\<lparr>tic := tic0\<lparr>recentLogs := recent10\<rparr>\<rparr>"

text \<open>One feedback operation waiting in the queue.\<close>

definition op0 :: QueuedOperation where
  "op0 = \<lparr>op_id = ''q-0'', op_kind = feedback,
     op_data = newFeedback_of feedback0 ''tmp-0'' ''u1'', op_timestamp = 500\<rparr>"

definition world_queued :: world where
  "world_queued = world0\<lparr>sug := sug0\<lparr>operationQueue := [op0]\<rparr>\<rparr>"

text \<open>
  A stand-in for \<open>toISOString\<close> in the concrete runs: it prints the time value in
  decimal.
\<close>

definition iso_example :: "date \<Rightarrow> string" where
  "iso_example t = decimal (nat t)"

text \<open>
  The snapshot of the spec's reload scenario, \<open>lastSync\<close> serialised and the queue empty,
  with the runtime's functions defined on it: \<open>JSON.parse\<close> on the text, \<open>new Date\<close> on
  the date string.
\<close>

definition stored_snapshot :: string where
  "stored_snapshot =
     ''{'' @ [CHR 0x22] @ ''lastSync'' @ [CHR 0x22] @ '':'' @
     [CHR 0x22] @ ''2024-01-01T00:00:00Z'' @ [CHR 0x22] @ '','' @
     [CHR 0x22] @ ''operationQueue'' @ [CHR 0x22] @ '':[]}''"

definition parse_example :: "string \<Rightarrow> jsval option" where
  "parse_example content =
     (if content = stored_snapshot
      then Some (JObj [(''lastSync'', JStr ''2024-01-01T00:00:00Z''), (''operationQueue'', JArr [])])
      else None)"

definition newDate_example :: "jsval \<Rightarrow> int option" where
  "newDate_example v =
     (case v of
        JStr s \<Rightarrow> if s = ''2024-01-01T00:00:00Z'' then Some 1704067200000 else None
      | JDate d \<Rightarrow> d
      | JNum n \<Rightarrow> Some n
      | _ \<Rightarrow> None)"

text \<open>
  The snapshot \<open>persistState\<close> writes after a generation for \<open>t1\<close> at the instant
  1704067200000: \<open>JSON.stringify\<close> prints the \<open>Date\<close> as its ISO string. (The other
  fields of the snapshot are left out here; they play no part.) \<open>JSON.parse\<close> on that
  text, and the world of a suggestion store that started from it one minute after the
  generation.
\<close>

definition stored_generation :: string where
  "stored_generation =
     ''{'' @ [CHR 0x22] @ ''lastAIGeneration'' @ [CHR 0x22] @ '':{'' @
     [CHR 0x22] @ ''t1'' @ [CHR 0x22] @ '':'' @
     [CHR 0x22] @ ''2024-01-01T00:00:00.000Z'' @ [CHR 0x22] @ ''}}''"

definition parse_generation :: "string \<Rightarrow> jsval option" where
  "parse_generation content =
     (if content = stored_generation
      then Some (JObj [(''lastAIGeneration'', JObj [(''t1'', JStr ''2024-01-01T00:00:00.000Z'')])])
      else None)"

definition world_reloaded :: world where
  "world_reloaded =
     world0\<lparr>sug := sug0\<lparr>lastAIGeneration :=
                lastAIGeneration_of (sug_startup parse_generation (Some stored_generation))\<rparr>,
            clock := 1704067200000 + 60000\<rparr>"

section \<open>Properties of the tic store\<close>

lemmas world_defs = set_tic_def set_sug_def fetch_def saveString_def

lemmas example_defs = world0_def tic0_def sug0_def log0_def logData0_def feedback0_def
  no_updates_def attempt_rejected_def attempt_accepted_def world_anonymous_def
  all_rejected_def all_accepted_def

text \<open>
  C10. A call of \<open>getTicHistory\<close> that finds a cache entry younger than thirty minutes
  returns the entry's logs and leaves the whole world as it was: no field of either store
  changes (so \<open>isLoading\<close>, the cache and \<open>error\<close> are untouched), and no request is
  issued.
\<close>

theorem getTicHistory_cache_hit:
  assumes "cachedHistoryRanges (tic w) (cacheKey toISO from until) = Some cached"
    and "clock w - cachedAt cached < CACHE_DURATION"
  shows "getTicHistory toISO from until reply latency w = (logs cached, w)"
  using assms by (simp add: getTicHistory_def)

text \<open>
  A state that holds a cache entry for the range from 0 to 10, cached at 900 and read
  at 1000.
\<close>

theorem getTicHistory_cache_hit_witness:
  "getTicHistory iso_example 0 10 Rejected 7
     (world0\<lparr>tic := tic0\<lparr>cachedHistoryRanges :=
        [cacheKey iso_example 0 10 \<mapsto> \<lparr>logs = [log0], cachedAt = 900\<rparr>]\<rparr>\<rparr>) =
   ([log0], world0\<lparr>tic := tic0\<lparr>cachedHistoryRanges :=
        [cacheKey iso_example 0 10 \<mapsto> \<lparr>logs = [log0], cachedAt = 900\<rparr>]\<rparr>\<rparr>)"
  using getTicHistory_cache_hit [of
      "world0\<lparr>tic := tic0\<lparr>cachedHistoryRanges :=
         [cacheKey iso_example 0 10 \<mapsto> \<lparr>logs = [log0], cachedAt = 900\<rparr>]\<rparr>\<rparr>"
      iso_example 0 10 "\<lparr>logs = [log0], cachedAt = 900\<rparr>" Rejected 7]
  by (simp add: world0_def CACHE_DURATION_def)

text \<open>
  C2, as the spec states it, fails: \<open>updateTicLog\<close> has no local check. With an empty
  primary mapping and a server that accepts, the call for the absent id \<open>x\<close> returns
  normally, has issued the \<open>PATCH\<close>, and has stored the returned record under \<open>x\<close>.
\<close>

theorem updateTicLog_notfound_counterexample:
  "ticLogs (tic world0) ''x'' = None \<and>
   fst (updateTicLog ''x'' no_updates (Accepted log0) 0 world0) = Inr () \<and>
   requests world0 = [] \<and>
   requests (snd (updateTicLog ''x'' no_updates (Accepted log0) 0 world0)) =
     [PatchLog ''x'' no_updates] \<and>
   ticLogs (tic (snd (updateTicLog ''x'' no_updates (Accepted log0) 0 world0))) ''x'' = Some log0"
  by (simp add: updateTicLog_def world_defs world0_def tic0_def)

text \<open>
  C2, amended. For an id absent from the primary mapping, \<open>updateTicLog\<close> does not fail
  and makes no local check: it issues exactly one \<open>PATCH\<close> request for the id and returns
  normally. When the request fails, the primary mapping and the recent list are as
  before and the store error is \<open>Failed to update tic log\<close>; when it is accepted, the
  returned record is stored under the id, which was absent, and the error is as before.
\<close>

theorem updateTicLog_absent_id:
  assumes "ticLogs (tic w) logId = None"
  shows "fst (updateTicLog logId updates reply latency w) = Inr () \<and>
         requests (snd (updateTicLog logId updates reply latency w)) =
           requests w @ [PatchLog logId updates] \<and>
         (case reply of
            Accepted updatedLog \<Rightarrow>
              ticLogs (tic (snd (updateTicLog logId updates reply latency w))) =
                (ticLogs (tic w))(logId \<mapsto> updatedLog) \<and>
              error (tic (snd (updateTicLog logId updates reply latency w))) = error (tic w)
          | _ \<Rightarrow>
              ticLogs (tic (snd (updateTicLog logId updates reply latency w))) = ticLogs (tic w) \<and>
              recentLogs (tic (snd (updateTicLog logId updates reply latency w))) =
                recentLogs (tic w) \<and>
              error (tic (snd (updateTicLog logId updates reply latency w))) =
                Some ''Failed to update tic log'')"
  by (cases reply) (simp_all add: updateTicLog_def world_defs)

theorem updateTicLog_absent_id_witness:
  "ticLogs (tic world0) ''x'' = None \<and>
   fst (updateTicLog ''x'' no_updates Rejected 5 world0) = Inr () \<and>
   requests (snd (updateTicLog ''x'' no_updates Rejected 5 world0)) =
     requests world0 @ [PatchLog ''x'' no_updates] \<and>
   ticLogs (tic (snd (updateTicLog ''x'' no_updates Rejected 5 world0))) = ticLogs (tic world0) \<and>
   error (tic (snd (updateTicLog ''x'' no_updates Rejected 5 world0))) =
     Some ''Failed to update tic log''"
proof -
  have absent: "ticLogs (tic world0) ''x'' = None"
    by (simp add: world0_def tic0_def)
  from updateTicLog_absent_id [OF absent, of no_updates Rejected 5] absent
  show ?thesis by simp
qed

text \<open>
  C4, as the spec states it, fails for \<open>logTic\<close>: with nobody signed in the call returns
  normally, nothing is thrown to the caller, and the store is changed, its error now
  being \<open>User not authenticated\<close>.
\<close>

theorem logTic_unauthenticated_counterexample:
  "rootUserId world_anonymous = None \<and>
   fst (logTic logData0 ''tmp-1'' (Accepted log0) 20 world_anonymous) = Inr () \<and>
   snd (logTic logData0 ''tmp-1'' (Accepted log0) 20 world_anonymous) \<noteq> world_anonymous \<and>
   error (tic world_anonymous) = None \<and>
   error (tic (snd (logTic logData0 ''tmp-1'' (Accepted log0) 20 world_anonymous))) =
     Some ''User not authenticated''"
proof -
  have e: "error (tic (snd (logTic logData0 ''tmp-1'' (Accepted log0) 20 world_anonymous))) =
             Some ''User not authenticated''"
    by (simp add: logTic_def world_defs world_anonymous_def world0_def)
  have e0: "error (tic world_anonymous) = None"
    by (simp add: world_anonymous_def world0_def tic0_def)
  have "snd (logTic logData0 ''tmp-1'' (Accepted log0) 20 world_anonymous) \<noteq> world_anonymous"
    using e e0 by auto
  moreover have "fst (logTic logData0 ''tmp-1'' (Accepted log0) 20 world_anonymous) = Inr ()"
    by (simp add: logTic_def world_anonymous_def world0_def)
  moreover have "rootUserId world_anonymous = None"
    by (simp add: world_anonymous_def world0_def)
  ultimately show ?thesis using e e0 by simp
qed

text \<open>
  C4, amended. A create call made while no owning identity is available issues no
  request and inserts nothing. \<open>provideFeedback\<close> throws \<open>User not authenticated\<close> to its
  caller and leaves the world as it was. \<open>logTic\<close> throws nothing: it returns normally
  after writing \<open>User not authenticated\<close> into the store's error field, which is its only
  change.
\<close>

theorem create_unauthenticated:
  assumes "\<not> authenticated (rootUserId w)"
  shows "provideFeedback fd a w = (Inl (Error ''User not authenticated''), w) \<and>
         logTic logData tempId reply latency w =
           (Inr (), w\<lparr>tic := (tic w)\<lparr>error := Some ''User not authenticated''\<rparr>\<rparr>)"
proof (cases "rootUserId w")
  case None
  then show ?thesis by (simp add: provideFeedback_def logTic_def set_tic_def)
next
  case (Some u)
  with assms have "u = []" by simp
  with Some show ?thesis by (simp add: provideFeedback_def logTic_def set_tic_def)
qed

theorem create_unauthenticated_witness:
  "\<not> authenticated (rootUserId world_anonymous) \<and>
   provideFeedback feedback0 attempt_accepted world_anonymous =
     (Inl (Error ''User not authenticated''), world_anonymous) \<and>
   logTic logData0 ''tmp-1'' (Accepted log0) 20 world_anonymous =
     (Inr (), world_anonymous\<lparr>tic := (tic world_anonymous)\<lparr>error :=
        Some ''User not authenticated''\<rparr>\<rparr>)"
proof -
  have anon: "\<not> authenticated (rootUserId world_anonymous)"
    by (simp add: world_anonymous_def world0_def)
  from create_unauthenticated [OF anon, of feedback0 attempt_accepted logData0 "''tmp-1''"
      "Accepted log0" 20] anon
  show ?thesis by simp
qed

text \<open>
  C1, as the spec states it, fails in two places. The entry a failed create leaves in
  the queue carries the client-local id of the failed attempt: the data of the operation
  \<open>provideFeedback\<close> pushes is the optimistic record, and the log \<open>logTic\<close> leaves in
  \<open>pendingLogs\<close> is the optimistic log. And the recent list is not always restored: the
  optimistic insert truncates it to ten entries, so a list that held ten holds nine
  after the rollback.
\<close>

theorem create_failure_counterexample:
  "fb_id (op_data (last (operationQueue (sug (snd
      (provideFeedback feedback0 attempt_rejected world0)))))) = att_feedbackId attempt_rejected \<and>
   log_id (last (pendingLogs (tic (snd (logTic logData0 ''tmp-1'' Rejected 20 world0))))) =
     ''tmp-1'' \<and>
   length (recentLogs (tic world_recent10)) = 10 \<and>
   length (recentLogs (tic (snd (logTic logData0 ''tmp-1'' Rejected 20 world_recent10)))) = 9"
  by (simp add: provideFeedback_def logTic_def world_defs example_defs world_recent10_def
      recent10_def newLog_of_def newFeedback_of_def Let_def)

text \<open>
  C1, amended. Let a create call run with an identity and fail remotely. Exactly one
  entry is added to the queue, at its end, and that entry carries the optimistic record,
  client-local id included, with the fields of the input: for \<open>logTic\<close> the queue is
  \<open>pendingLogs\<close> and the entry is the optimistic log; for \<open>provideFeedback\<close> the queue
  is \<open>operationQueue\<close> and the entry is a \<open>feedback\<close> operation whose data is the
  optimistic feedback record. The store error is set. If the client-local id was not in
  the primary mapping, the primary mapping is exactly as before the call. If the
  client-local id was not in the recent list and the list held fewer than ten entries,
  the recent list is exactly as before the call.
\<close>

theorem create_failure_rollback:
  assumes auth: "rootUserId w = Some uid" "uid \<noteq> []"
  shows "(reply = Unreachable \<or> reply = Rejected \<longrightarrow>
           (let w' = snd (logTic logData tempId reply latency w) in
              pendingLogs (tic w') = pendingLogs (tic w) @ [newLog_of logData tempId (clock w)] \<and>
              log_id (last (pendingLogs (tic w'))) = tempId \<and>
              error (tic w') = Some ''Failed to sync tic log'' \<and>
              (ticLogs (tic w) tempId = None \<longrightarrow> ticLogs (tic w') = ticLogs (tic w)) \<and>
              (tempId \<notin> log_id ` set (recentLogs (tic w)) \<and> length (recentLogs (tic w)) < 10 \<longrightarrow>
                 recentLogs (tic w') = recentLogs (tic w)))) \<and>
         (att_answer a = Unreachable \<or> att_answer a = Rejected \<longrightarrow>
           (let w' = snd (provideFeedback fd a w) in
              operationQueue (sug w') = operationQueue (sug w) @
                [\<lparr>op_id = att_queueId a, op_kind = feedback,
                  op_data = newFeedback_of fd (att_feedbackId a) uid,
                  op_timestamp = clock w + int (att_latency a)\<rparr>] \<and>
              fb_id (op_data (last (operationQueue (sug w')))) = att_feedbackId a \<and>
              sug_error (sug w') = Some ''Failed to save feedback'' \<and>
              (userFeedback (sug w) (att_feedbackId a) = None \<longrightarrow>
                 userFeedback (sug w') = userFeedback (sug w))))"
proof (intro conjI impI)
  assume failed: "reply = Unreachable \<or> reply = Rejected"
  have keep: "filter (\<lambda>l. log_id l \<noteq> tempId) (recentLogs (tic w)) = recentLogs (tic w)"
    if "tempId \<notin> log_id ` set (recentLogs (tic w))"
    using that by (auto simp: filter_id_conv)
  show "let w' = snd (logTic logData tempId reply latency w) in
          pendingLogs (tic w') = pendingLogs (tic w) @ [newLog_of logData tempId (clock w)] \<and>
          log_id (last (pendingLogs (tic w'))) = tempId \<and>
          error (tic w') = Some ''Failed to sync tic log'' \<and>
          (ticLogs (tic w) tempId = None \<longrightarrow> ticLogs (tic w') = ticLogs (tic w)) \<and>
          (tempId \<notin> log_id ` set (recentLogs (tic w)) \<and> length (recentLogs (tic w)) < 10 \<longrightarrow>
             recentLogs (tic w') = recentLogs (tic w))"
    using auth failed keep
    by (auto simp: logTic_def world_defs Let_def newLog_of_def)
next
  assume failed: "att_answer a = Unreachable \<or> att_answer a = Rejected"
  show "let w' = snd (provideFeedback fd a w) in
          operationQueue (sug w') = operationQueue (sug w) @
            [\<lparr>op_id = att_queueId a, op_kind = feedback,
              op_data = newFeedback_of fd (att_feedbackId a) uid,
              op_timestamp = clock w + int (att_latency a)\<rparr>] \<and>
          fb_id (op_data (last (operationQueue (sug w')))) = att_feedbackId a \<and>
          sug_error (sug w') = Some ''Failed to save feedback'' \<and>
          (userFeedback (sug w) (att_feedbackId a) = None \<longrightarrow>
             userFeedback (sug w') = userFeedback (sug w))"
    using auth failed
    by (auto simp: provideFeedback_def world_defs Let_def newFeedback_of_def)
qed

text \<open>
  Two concrete runs from the initial state, and a third from the state with ten recent
  logs, where the parts of the statement that do not concern the recent list still
  apply.
\<close>

theorem create_failure_rollback_witness:
  "ticLogs (tic (snd (logTic logData0 ''tmp-1'' Rejected 20 world0))) = ticLogs (tic world0) \<and>
   recentLogs (tic (snd (logTic logData0 ''tmp-1'' Rejected 20 world0))) = [] \<and>
   pendingLogs (tic (snd (logTic logData0 ''tmp-1'' Rejected 20 world0))) =
     [newLog_of logData0 ''tmp-1'' 1000] \<and>
   userFeedback (sug (snd (provideFeedback feedback0 attempt_rejected world0))) =
     userFeedback (sug world0) \<and>
   operationQueue (sug (snd (provideFeedback feedback0 attempt_rejected world0))) =
     [\<lparr>op_id = ''q-1'', op_kind = feedback, op_data = newFeedback_of feedback0 ''tmp-1'' ''u1'',
       op_timestamp = 1020\<rparr>] \<and>
   ticLogs (tic (snd (logTic logData0 ''tmp-1'' Rejected 20 world_recent10))) =
     ticLogs (tic world_recent10) \<and>
   error (tic (snd (logTic logData0 ''tmp-1'' Rejected 20 world_recent10))) =
     Some ''Failed to sync tic log''"
proof -
  have auth: "rootUserId world0 = Some ''u1''" "''u1'' \<noteq> []"
    by (simp_all add: example_defs)
  have auth10: "rootUserId world_recent10 = Some ''u1''"
    by (simp add: world_recent10_def example_defs)
  have h: "Rejected = Unreachable \<or> (Rejected :: TicLog outcome) = Rejected"
    "att_answer attempt_rejected = Unreachable \<or> att_answer attempt_rejected = Rejected"
    "ticLogs (tic world0) ''tmp-1'' = None"
    "''tmp-1'' \<notin> log_id ` set (recentLogs (tic world0)) \<and> length (recentLogs (tic world0)) < 10"
    "userFeedback (sug world0) (att_feedbackId attempt_rejected) = None"
    "ticLogs (tic world_recent10) ''tmp-1'' = None"
    by (simp_all add: world_recent10_def example_defs)
  have v: "recentLogs (tic world0) = []" "pendingLogs (tic world0) = []"
    "operationQueue (sug world0) = []" "clock world0 = 1000"
    "att_queueId attempt_rejected = ''q-1''" "att_feedbackId attempt_rejected = ''tmp-1''"
    "att_latency attempt_rejected = 20"
    by (simp_all add: example_defs)
  from create_failure_rollback [OF auth, of Rejected logData0 "''tmp-1''" 20 attempt_rejected
      feedback0]
    create_failure_rollback [OF auth10 auth(2), of Rejected logData0 "''tmp-1''" 20
      attempt_rejected feedback0] h
  show ?thesis by (simp add: Let_def v)
qed

subsection \<open>The range cache\<close>

lemma fetchTicHistory_requests:
  "requests (snd (fetchTicHistory toISO from until reply latency w)) =
     requests w @ [GetHistory (toISO from) (toISO until)]"
  by (cases reply) (simp_all add: fetchTicHistory_def world_defs)

lemma fetchTicHistory_accepted:
  "fetchTicHistory toISO from until (Accepted ls) latency w = (r, w') \<Longrightarrow>
     r = ls \<and>
     cachedHistoryRanges (tic w') (cacheKey toISO from until) =
       Some \<lparr>logs = ls, cachedAt = clock w + int latency\<rparr> \<and>
     clock w' = clock w + int latency \<and>
     requests w' = requests w @ [GetHistory (toISO from) (toISO until)]"
  by (auto simp: fetchTicHistory_def world_defs)

lemma getTicHistory_miss:
  assumes "\<forall>c. cachedHistoryRanges (tic w) (cacheKey toISO from until) = Some c \<longrightarrow>
             CACHE_DURATION \<le> clock w - cachedAt c"
  shows "getTicHistory toISO from until reply latency w =
           fetchTicHistory toISO from until reply latency w"
  using assms by (auto simp: getTicHistory_def split: option.splits)

text \<open>
  C6. Take any bounds \<open>A\<close>, \<open>B\<close> and a first call that is not served from the cache and
  whose remote read is accepted with the logs \<open>ls\<close>. A second call that starts less than
  thirty minutes after the first started returns \<open>ls\<close> and issues nothing, so the two
  calls have issued exactly one request. A third call that starts thirty minutes or
  more after the entry was cached issues a second request, whatever the server then
  answers. Between the calls only time passes.
\<close>

theorem getTicHistory_cached_for_30_minutes:
  assumes miss: "\<forall>c. cachedHistoryRanges (tic w) (cacheKey toISO A B) = Some c \<longrightarrow>
                   30 * 60 * 1000 \<le> clock w - cachedAt c"
    and first: "getTicHistory toISO A B (Accepted ls) latency1 w = (r1, w1)"
    and within: "clock (elapse gap1 w1) - clock w < 30 * 60 * 1000"
    and second: "getTicHistory toISO A B reply2 latency2 (elapse gap1 w1) = (r2, w2)"
    and later: "30 * 60 * 1000 \<le> clock (elapse gap2 w2) - (clock w + int latency1)"
    and third: "getTicHistory toISO A B reply3 latency3 (elapse gap2 w2) = (r3, w3)"
  shows "r1 = ls \<and> r2 = ls \<and>
         cachedHistoryRanges (tic w1) (cacheKey toISO A B) =
           Some \<lparr>logs = ls, cachedAt = clock w + int latency1\<rparr> \<and>
         requests w1 = requests w @ [GetHistory (toISO A) (toISO B)] \<and>
         requests w2 = requests w @ [GetHistory (toISO A) (toISO B)] \<and>
         requests w3 = requests w @ [GetHistory (toISO A) (toISO B),
                                     GetHistory (toISO A) (toISO B)]"
proof -
  let ?k = "cacheKey toISO A B"
  let ?e = "\<lparr>logs = ls, cachedAt = clock w + int latency1\<rparr>"
  from miss have "getTicHistory toISO A B (Accepted ls) latency1 w =
      fetchTicHistory toISO A B (Accepted ls) latency1 w"
    by (intro getTicHistory_miss) (simp add: CACHE_DURATION_def)
  with first have f: "fetchTicHistory toISO A B (Accepted ls) latency1 w = (r1, w1)"
    by simp
  note a = fetchTicHistory_accepted [OF f]
  have c1: "cachedHistoryRanges (tic (elapse gap1 w1)) ?k = Some ?e"
    using a by (simp add: elapse_def)
  have young: "clock (elapse gap1 w1) - cachedAt ?e < CACHE_DURATION"
    using within by (simp add: CACHE_DURATION_def)
  have hit: "getTicHistory toISO A B reply2 latency2 (elapse gap1 w1) = (ls, elapse gap1 w1)"
    using c1 young by (simp add: getTicHistory_def)
  with second have w2: "w2 = elapse gap1 w1" and r2: "r2 = ls"
    by simp_all
  have c2: "cachedHistoryRanges (tic (elapse gap2 w2)) ?k = Some ?e"
    using c1 w2 by (simp add: elapse_def)
  have "getTicHistory toISO A B reply3 latency3 (elapse gap2 w2) =
          fetchTicHistory toISO A B reply3 latency3 (elapse gap2 w2)"
    using c2 later by (intro getTicHistory_miss) (simp add: CACHE_DURATION_def)
  with third have "requests w3 = requests (elapse gap2 w2) @ [GetHistory (toISO A) (toISO B)]"
    using fetchTicHistory_requests [of toISO A B reply3 latency3 "elapse gap2 w2"] by simp
  moreover have "requests (elapse gap2 w2) = requests w1"
    using w2 by (simp add: elapse_def)
  ultimately show ?thesis
    using a r2 w2 by (simp add: elapse_def)
qed

text \<open>
  A concrete run: the first call at 1000 is answered after 50 ms, the second
  follows one second later, the third thirty minutes after that.
\<close>

theorem getTicHistory_cached_for_30_minutes_witness:
  "fst (getTicHistory iso_example 0 10 (Accepted [log0]) 50 world0) = [log0] \<and>
   fst (getTicHistory iso_example 0 10 Rejected 50
     (elapse 1000 (snd (getTicHistory iso_example 0 10 (Accepted [log0]) 50 world0)))) = [log0] \<and>
   requests (snd (getTicHistory iso_example 0 10 Rejected 50
     (elapse 1000 (snd (getTicHistory iso_example 0 10 (Accepted [log0]) 50 world0))))) =
     [GetHistory (iso_example 0) (iso_example 10)] \<and>
   requests (snd (getTicHistory iso_example 0 10 Rejected 50
     (elapse 1800000 (snd (getTicHistory iso_example 0 10 Rejected 50
       (elapse 1000 (snd (getTicHistory iso_example 0 10 (Accepted [log0]) 50 world0)))))))) =
     [GetHistory (iso_example 0) (iso_example 10), GetHistory (iso_example 0) (iso_example 10)]"
proof -
  let ?w1 = "snd (getTicHistory iso_example 0 10 (Accepted [log0]) 50 world0)"
  let ?w2 = "snd (getTicHistory iso_example 0 10 Rejected 50 (elapse 1000 ?w1))"
  let ?w3 = "snd (getTicHistory iso_example 0 10 Rejected 50 (elapse 1800000 ?w2))"
  have cold: "\<forall>c. cachedHistoryRanges (tic world0) (cacheKey iso_example 0 10) = Some c \<longrightarrow>
                30 * 60 * 1000 \<le> clock world0 - cachedAt c"
    by (simp add: world0_def tic0_def)
  have first: "getTicHistory iso_example 0 10 (Accepted [log0]) 50 world0 =
      (fst (getTicHistory iso_example 0 10 (Accepted [log0]) 50 world0), ?w1)"
    by simp
  have c1: "clock ?w1 = 1050"
    by (simp add: getTicHistory_def fetchTicHistory_def world_defs world0_def tic0_def)
  have within: "clock (elapse 1000 ?w1) - clock world0 < 30 * 60 * 1000"
    using c1 by (simp add: elapse_def world0_def)
  have second: "getTicHistory iso_example 0 10 Rejected 50 (elapse 1000 ?w1) =
      (fst (getTicHistory iso_example 0 10 Rejected 50 (elapse 1000 ?w1)), ?w2)"
    by simp
  have third: "getTicHistory iso_example 0 10 Rejected 50 (elapse 1800000 ?w2) =
      (fst (getTicHistory iso_example 0 10 Rejected 50 (elapse 1800000 ?w2)), ?w3)"
    by simp
  have c2: "clock ?w2 = 2050"
    by (simp add: getTicHistory_def fetchTicHistory_def world_defs world0_def tic0_def elapse_def
        CACHE_DURATION_def)
  have later: "30 * 60 * 1000 \<le> clock (elapse 1800000 ?w2) - (clock world0 + int 50)"
    using c2 by (simp add: elapse_def world0_def)
  have r0: "requests world0 = []"
    by (simp add: world0_def)
  from getTicHistory_cached_for_30_minutes [OF cold first within second later third]
  show ?thesis by (simp add: r0)
qed

section \<open>Properties of the suggestion store\<close>

subsection \<open>The generation cooldown\<close>

lemma fetchTicHistory_frame:
  "fetchTicHistory toISO from until reply latency w = (r, w') \<Longrightarrow>
     sug w' = sug w \<and> filter is_generate (requests w') = filter is_generate (requests w) \<and>
     clock w \<le> clock w'"
  by (cases reply) (auto simp: fetchTicHistory_def world_defs)

lemma getTicHistory_frame:
  "getTicHistory toISO from until reply latency w = (r, w') \<Longrightarrow>
     sug w' = sug w \<and> filter is_generate (requests w') = filter is_generate (requests w) \<and>
     clock w \<le> clock w'"
  by (auto simp: getTicHistory_def split: option.splits if_splits dest: fetchTicHistory_frame)

text \<open>
  While \<open>lastAIGeneration\<close> holds the \<open>Date\<close> a generation stamped, a call within the
  hour returns with the world as it was.
\<close>

lemma generate_cooldown_noop:
  assumes "lastAIGeneration (sug w) subject = Some (JDate (Some t))" "clock w - t < COOLDOWN"
  shows "generatePersonalizedSuggestions toISO subject hr hl reply lat w = (Inr (), w)"
  using assms by (simp add: generatePersonalizedSuggestions_def)

lemma generate_accepted:
  assumes due: "lastAIGeneration (sug w) subject = None"
    and run: "generatePersonalizedSuggestions toISO subject hr hl (Accepted new) lat w = (r, w')"
  shows "\<exists>t. lastAIGeneration (sug w') subject = Some (JDate (Some t)) \<and> clock w' = t \<and>
           clock w \<le> t \<and> generations w' = Suc (generations w)"
proof -
  let ?w1 = "set_sug (\<lambda>s. s\<lparr>sug_isLoading := True, sug_error := None\<rparr>) w"
  obtain ls v where h: "getTicHistory toISO (clock w - 7 * 24 * 60 * 60 * 1000) (clock w) hr hl
      ?w1 = (ls, v)"
    by (cases "getTicHistory toISO (clock w - 7 * 24 * 60 * 60 * 1000) (clock w) hr hl ?w1")
  note fr = getTicHistory_frame [OF h]
  have w': "w' = persistState (set_sug (\<lambda>s. s\<lparr>
                       suggestions := fold (\<lambda>g m. m(sg_id g \<mapsto> g)) new (suggestions s),
                       suggestionsByTicType := (suggestionsByTicType s)(subject \<mapsto>
                          (case suggestionsByTicType s subject of Some ids \<Rightarrow> ids | None \<Rightarrow> [])
                          @ map sg_id new),
                       lastAIGeneration := (lastAIGeneration s)(subject \<mapsto>
                          JDate (Some (clock (fetch (PostGenerate subject ls) lat v)))),
                       sug_isLoading := False\<rparr>) (fetch (PostGenerate subject ls) lat v))"
    using due run h
    by (auto simp: generatePersonalizedSuggestions_def Let_def set_sug_def)
  show ?thesis
    using fr by (simp add: w' persistState_def world_defs generations_def)
qed

text \<open>
  So within one session the cooldown does what the spec says: after a first generation
  that is accepted, a second call that starts less than one hour after the first
  started is a no-op, and the generation request has been issued once.
\<close>

lemma generate_once_per_hour:
  assumes due: "lastAIGeneration (sug w) subject = None"
    and first: "generatePersonalizedSuggestions toISO subject hr1 hl1 (Accepted new) lat1 w =
                  (r1, w1)"
    and within: "clock (elapse gap w1) - clock w < 3600000"
  shows "generatePersonalizedSuggestions toISO subject hr2 hl2 reply2 lat2 (elapse gap w1) =
           (Inr (), elapse gap w1) \<and>
         generations (elapse gap w1) = Suc (generations w)"
proof -
  from generate_accepted [OF due first] obtain t' where
    t': "lastAIGeneration (sug w1) subject = Some (JDate (Some t'))" "clock w1 = t'"
        "clock w \<le> t'" "generations w1 = Suc (generations w)"
    by blast
  have "lastAIGeneration (sug (elapse gap w1)) subject = Some (JDate (Some t'))"
    using t'(1) by (simp add: elapse_def)
  moreover have "clock (elapse gap w1) - t' < COOLDOWN"
    using within t'(3) by (simp add: COOLDOWN_def)
  ultimately have "generatePersonalizedSuggestions toISO subject hr2 hl2 reply2 lat2
      (elapse gap w1) = (Inr (), elapse gap w1)"
    by (rule generate_cooldown_noop)
  moreover have "generations (elapse gap w1) = Suc (generations w)"
    using t'(4) by (simp add: generations_def elapse_def)
  ultimately show ?thesis by simp
qed

text \<open>
  C7 fails on the code once the store has been reloaded. \<open>persistState\<close> writes
  \<open>lastAIGeneration\<close> through \<open>JSON.stringify\<close>, and \<open>loadPersistedState\<close> returns
  what \<open>JSON.parse\<close> gives, so the store that starts from the snapshot holds the ISO
  string of the last generation, not a \<open>Date\<close>. A call for the subject one minute
  after that generation is not a silent no-op: \<open>lastGeneration.getTime()\<close> throws, and
  the call is rejected with a \<open>TypeError\<close> (the world is unchanged, no request is
  issued).
\<close>

theorem generate_after_reload_throws:
  "lastAIGeneration (sug world_reloaded) ''t1'' = Some (JStr ''2024-01-01T00:00:00.000Z'') \<and>
   clock world_reloaded - 1704067200000 < 3600000 \<and>
   generatePersonalizedSuggestions iso_example ''t1'' (Accepted []) 30 (Accepted []) 40
     world_reloaded =
     (Inl (Error ''TypeError: lastGeneration.getTime is not a function''), world_reloaded)"
proof -
  have stamp: "lastAIGeneration (sug world_reloaded) ''t1'' =
      Some (JStr ''2024-01-01T00:00:00.000Z'')"
    by (simp add: world_reloaded_def lastAIGeneration_of_def sug_startup_def
        sug_loadPersistedState_def parse_generation_def stored_generation_def spread_def
        sug_initialState_def)
  have "clock world_reloaded - 1704067200000 < 3600000"
    by (simp add: world_reloaded_def)
  with stamp show ?thesis
    by (simp add: generatePersonalizedSuggestions_def)
qed

subsection \<open>Draining the operation queue\<close>

lemma provideFeedback_step:
  assumes "rootUserId w = Some uid" "uid \<noteq> []"
  shows "\<exists>w'. provideFeedback fd a w = (Inr (), w') \<and>
           rootUserId w' = rootUserId w \<and>
           clock w' = clock w + int (att_latency a) \<and>
           operationQueue (sug w') = operationQueue (sug w) @
             (case att_answer a of
                Accepted _ \<Rightarrow> []
              | _ \<Rightarrow> [\<lparr>op_id = att_queueId a, op_kind = feedback,
                       op_data = newFeedback_of fd (att_feedbackId a) uid,
                       op_timestamp = clock w + int (att_latency a)\<rparr>])"
  using assms
  by (cases "att_answer a") (simp_all add: provideFeedback_def persistState_def world_defs Let_def)

lemma replay_queue:
  assumes "rootUserId w = Some uid" "uid \<noteq> []"
  shows "\<exists>w'. replay ops env i w = (Inr (), w') \<and>
           rootUserId w' = rootUserId w \<and>
           clock w \<le> clock w' \<and>
           operationQueue (sug w') = operationQueue (sug w) @ requeued ops env i uid (clock w)"
  using assms
proof (induction ops arbitrary: i w)
  case Nil
  then show ?case by simp
next
  case (Cons op ops)
  show ?case
  proof (cases "op_kind op = feedback")
    case False
    with Cons.IH [OF Cons.prems, of "Suc i"] show ?thesis by simp
  next
    case True
    from provideFeedback_step [OF Cons.prems, of "data_of (op_data op)" "env i"]
    obtain w1 where s: "provideFeedback (data_of (op_data op)) (env i) w = (Inr (), w1)"
      "rootUserId w1 = rootUserId w" "clock w1 = clock w + int (att_latency (env i))"
      "operationQueue (sug w1) = operationQueue (sug w) @
             (case att_answer (env i) of
                Accepted _ \<Rightarrow> []
              | _ \<Rightarrow> [\<lparr>op_id = att_queueId (env i), op_kind = feedback,
                       op_data = newFeedback_of (data_of (op_data op)) (att_feedbackId (env i)) uid,
                       op_timestamp = clock w + int (att_latency (env i))\<rparr>])"
      by blast
    have p: "rootUserId w1 = Some uid"
      using s(2) Cons.prems(1) by simp
    from Cons.IH [OF p Cons.prems(2), of "Suc i"] obtain w2 where
      r: "replay ops env (Suc i) w1 = (Inr (), w2)" "rootUserId w2 = rootUserId w1"
         "clock w1 \<le> clock w2"
         "operationQueue (sug w2) =
            operationQueue (sug w1) @ requeued ops env (Suc i) uid (clock w1)"
      by blast
    show ?thesis using True s r by simp
  qed
qed

lemma requeued_all_accepted:
  "\<forall>j < length ops. att_answer (env (i + j)) = Accepted () \<Longrightarrow> requeued ops env i uid t = []"
proof (induction ops arbitrary: i t)
  case Nil
  then show ?case by simp
next
  case (Cons op ops)
  have "att_answer (env i) = Accepted ()"
    using Cons.prems [rule_format, of 0] by simp
  moreover have "requeued ops env (Suc i) uid t' = []" for t'
  proof (rule Cons.IH, intro allI impI)
    fix j assume "j < length ops"
    then show "att_answer (env (Suc i + j)) = Accepted ()"
      using Cons.prems [rule_format, of "Suc j"] by simp
  qed
  ultimately show ?case by simp
qed

text \<open>No draft is among the queued objects, so the final filter keeps every operation.\<close>

lemma draft_not_included: "\<not> array_includes (map Object operations) (Draft op)"
  by (auto simp: array_includes_def)

text \<open>
  A drain that starts while no drain is in flight and an identity is available runs
  to its end, stamps \<open>lastSync\<close>, and removes nothing: afterwards the queue holds the
  snapshot, followed by the operations the failed replays pushed.
\<close>

lemma drain_result:
  assumes idle: "\<not> isSyncing (sug w)"
    and auth: "rootUserId w = Some uid" "uid \<noteq> []"
  shows "\<exists>w' t. syncUserFeedback env w = (Inr (), w') \<and>
           clock w \<le> t \<and> sug_lastSync (sug w') = Some t \<and> \<not> isSyncing (sug w') \<and>
           operationQueue (sug w') =
             operationQueue (sug w) @ requeued (operationQueue (sug w)) env 0 uid (clock w)"
proof -
  let ?w1 = "set_sug (\<lambda>s. s\<lparr>isSyncing := True, sug_error := None\<rparr>) w"
  have a: "rootUserId ?w1 = Some uid"
    using auth by (simp add: set_sug_def)
  from replay_queue [OF a auth(2), of "operationQueue (sug w)" env 0] obtain w2 where
    r: "replay (operationQueue (sug w)) env 0 ?w1 = (Inr (), w2)" "clock ?w1 \<le> clock w2"
       "operationQueue (sug w2) = operationQueue (sug ?w1) @
          requeued (operationQueue (sug w)) env 0 uid (clock ?w1)"
    by blast
  have q: "operationQueue (sug ?w1) = operationQueue (sug w)" "clock ?w1 = clock w"
    by (simp_all add: set_sug_def)
  show ?thesis
    using idle r q
    by (simp add: syncUserFeedback_def Let_def persistState_def world_defs draft_not_included)
qed

text \<open>
  C3 fails on the code: the drain removes no operation, so a snapshotted operation
  whose replay succeeds is not removed. With \<open>op0\<close> queued and its replay accepted,
  the drain ends normally and the queue still holds \<open>op0\<close>. With its replay rejected,
  the queue holds \<open>op0\<close> and, after it, the operation the failed replay pushed: the
  failed operation does remain queued, and the operation enqueued during the drain is
  not removed, as the claim says.
\<close>

theorem syncUserFeedback_removes_nothing:
  "operationQueue (sug world_queued) = [op0] \<and>
   att_answer (all_accepted 0) = Accepted () \<and>
   fst (syncUserFeedback all_accepted world_queued) = Inr () \<and>
   operationQueue (sug (snd (syncUserFeedback all_accepted world_queued))) = [op0] \<and>
   att_answer (all_rejected 0) = Rejected \<and>
   operationQueue (sug (snd (syncUserFeedback all_rejected world_queued))) =
     [op0,
      \<lparr>op_id = ''q-1'', op_kind = feedback, op_data = newFeedback_of feedback0 ''tmp-1'' ''u1'',
        op_timestamp = 1020\<rparr>]"
  by (simp add: syncUserFeedback_def provideFeedback_def persistState_def world_defs
      world_queued_def op0_def example_defs newFeedback_of_def data_of_def Let_def
      array_includes_def)

text \<open>
  C8, as the spec states it, fails. \<open>syncTicLogs\<close> started on an empty queue returns
  before it stamps \<open>lastSync\<close>, which stays \<open>null\<close> here although the server would have
  accepted. \<open>syncUserFeedback\<close> started with nobody signed in stops at the first
  replay, which throws before it reaches the server: the operation stays queued and
  \<open>lastSync\<close> stays \<open>null\<close>. And with an identity and a server that accepts,
  \<open>syncUserFeedback\<close> still leaves the operation in the queue.
\<close>

theorem drain_counterexample:
  "pendingLogs (tic world0) = [] \<and>
   lastSync (tic (snd (syncTicLogs (Accepted []) 20 world0))) = None \<and>
   operationQueue (sug (snd (syncUserFeedback all_accepted
      (world_queued\<lparr>rootUserId := None\<rparr>)))) = [op0] \<and>
   sug_lastSync (sug (snd (syncUserFeedback all_accepted
      (world_queued\<lparr>rootUserId := None\<rparr>)))) = None \<and>
   operationQueue (sug (snd (syncUserFeedback all_accepted world_queued))) = [op0]"
  by (simp add: syncTicLogs_def syncUserFeedback_def provideFeedback_def persistState_def
      world_defs world_queued_def op0_def example_defs Let_def array_includes_def
      data_of_def newFeedback_of_def)

text \<open>
  C8, amended. When the server accepts, \<open>syncTicLogs\<close> leaves \<open>pendingLogs\<close> empty; if
  the queue was not empty when it started, \<open>lastSync\<close> is set to the time the answer
  arrived, which is not before the start; if the queue was empty it returns early and
  \<open>lastSync\<close> is as before. When no drain is in flight, an identity is available and
  the server accepts every replay, \<open>syncUserFeedback\<close> runs to its end, sets
  \<open>lastSync\<close> to a time not before the start, and queues no new operation: every
  operation in the queue afterwards was in it before.
\<close>

theorem drain_empties_queue:
  "pendingLogs (tic (snd (syncTicLogs (Accepted synced) latency w))) = [] \<and>
   (pendingLogs (tic w) \<noteq> [] \<longrightarrow>
      lastSync (tic (snd (syncTicLogs (Accepted synced) latency w))) =
        Some (clock w + int latency) \<and>
      clock w \<le> clock w + int latency) \<and>
   (pendingLogs (tic w) = [] \<longrightarrow>
      lastSync (tic (snd (syncTicLogs (Accepted synced) latency w))) = lastSync (tic w)) \<and>
   (\<not> isSyncing (sug w) \<and> rootUserId w = Some uid \<and> uid \<noteq> [] \<and>
    (\<forall>i < length (operationQueue (sug w)). att_answer (env i) = Accepted ()) \<longrightarrow>
      fst (syncUserFeedback env w) = Inr () \<and>
      (\<exists>t. sug_lastSync (sug (snd (syncUserFeedback env w))) = Some t \<and> clock w \<le> t) \<and>
      set (operationQueue (sug (snd (syncUserFeedback env w)))) \<subseteq>
        set (operationQueue (sug w)))"
proof (intro conjI impI)
  show "pendingLogs (tic (snd (syncTicLogs (Accepted synced) latency w))) = []"
    by (simp add: syncTicLogs_def world_defs Let_def)
next
  assume "pendingLogs (tic w) \<noteq> []"
  then show "lastSync (tic (snd (syncTicLogs (Accepted synced) latency w))) =
      Some (clock w + int latency)"
    by (simp add: syncTicLogs_def world_defs Let_def)
next
  show "clock w \<le> clock w + int latency"
    by simp
next
  assume "pendingLogs (tic w) = []"
  then show "lastSync (tic (snd (syncTicLogs (Accepted synced) latency w))) = lastSync (tic w)"
    by (simp add: syncTicLogs_def world_defs Let_def)
next
  assume h: "\<not> isSyncing (sug w) \<and> rootUserId w = Some uid \<and> uid \<noteq> [] \<and>
    (\<forall>i < length (operationQueue (sug w)). att_answer (env i) = Accepted ())"
  then have idle: "\<not> isSyncing (sug w)" and auth: "rootUserId w = Some uid" "uid \<noteq> []"
    and accepted: "\<forall>i < length (operationQueue (sug w)). att_answer (env i) = Accepted ()"
    by simp_all
  from drain_result [OF idle auth, of env] obtain w' t where
    d: "syncUserFeedback env w = (Inr (), w')" "clock w \<le> t" "sug_lastSync (sug w') = Some t"
       "operationQueue (sug w') =
          operationQueue (sug w) @ requeued (operationQueue (sug w)) env 0 uid (clock w)"
    by blast
  have none: "requeued (operationQueue (sug w)) env 0 uid (clock w) = []"
    using accepted by (intro requeued_all_accepted) simp
  show "fst (syncUserFeedback env w) = Inr ()"
    using d by simp
  show "\<exists>t. sug_lastSync (sug (snd (syncUserFeedback env w))) = Some t \<and> clock w \<le> t"
    using d by simp
  show "set (operationQueue (sug (snd (syncUserFeedback env w)))) \<subseteq> set (operationQueue (sug w))"
    using d none by simp
qed

text \<open>
  A concrete state with one log pending in the tic store and one operation
  queued in the suggestion store.
\<close>

theorem drain_empties_queue_witness:
  "pendingLogs (tic (snd (syncTicLogs (Accepted [log0]) 20
      (world_queued\<lparr>tic := tic0\<lparr>pendingLogs := [newLog_of logData0 ''tmp-1'' 900]\<rparr>\<rparr>)))) = [] \<and>
   lastSync (tic (snd (syncTicLogs (Accepted [log0]) 20
      (world_queued\<lparr>tic := tic0\<lparr>pendingLogs := [newLog_of logData0 ''tmp-1'' 900]\<rparr>\<rparr>)))) =
     Some 1020 \<and>
   lastSync (tic (snd (syncTicLogs (Accepted [log0]) 20 world_queued))) = None \<and>
   fst (syncUserFeedback all_accepted world_queued) = Inr () \<and>
   (\<exists>t. sug_lastSync (sug (snd (syncUserFeedback all_accepted world_queued))) = Some t \<and>
        1000 \<le> t) \<and>
   set (operationQueue (sug (snd (syncUserFeedback all_accepted world_queued)))) \<subseteq> {op0}"
proof -
  let ?w = "world_queued\<lparr>tic := tic0\<lparr>pendingLogs := [newLog_of logData0 ''tmp-1'' 900]\<rparr>\<rparr>"
  have h: "\<not> isSyncing (sug world_queued) \<and> rootUserId world_queued = Some ''u1'' \<and>
      ''u1'' \<noteq> [] \<and>
      (\<forall>i < length (operationQueue (sug world_queued)). att_answer (all_accepted i) = Accepted ())"
    by (simp add: world_queued_def example_defs)
  have v: "pendingLogs (tic ?w) \<noteq> []" "clock ?w = 1000" "pendingLogs (tic world_queued) = []"
    "lastSync (tic world_queued) = None" "clock world_queued = 1000"
    "operationQueue (sug world_queued) = [op0]"
    by (simp_all add: world_queued_def example_defs)
  from drain_empties_queue [of "[log0]" 20 ?w "''u1''" all_accepted]
    drain_empties_queue [of "[log0]" 20 world_queued "''u1''" all_accepted] h
  show ?thesis by (simp add: v)
qed

section \<open>Properties of persistence\<close>

subsection \<open>The durable snapshot\<close>

lemma persistState_selected_fields:
  "storage (persistState w) SUGGESTION_STORAGE_KEY =
     Some (SuggestionSnapshot (persistedData (sug w)))"
  by (simp add: persistState_def saveString_def)

lemma persistedData_ignores_transient:
  "persistedData (s\<lparr>sug_error := e, sug_isLoading := l, pendingFeedback := p, isSyncing := y\<rparr>) =
     persistedData s"
  by (simp add: persistedData_def)

lemma syncTicLogs_snapshot:
  assumes "pendingLogs (tic w) \<noteq> []"
  shows "\<exists>s. storage (snd (syncTicLogs (Accepted synced) latency w)) TIC_STORAGE_KEY =
               Some (TicSnapshot s) \<and>
             isLoading s \<and> error s = error (tic w) \<and> recentLogs s = recentLogs (tic w) \<and>
             cachedHistoryRanges s = cachedHistoryRanges (tic w)"
  using assms by (simp add: syncTicLogs_def world_defs Let_def)

text \<open>
  C5 holds for the suggestion store, whose \<open>persistState\<close> writes six selected fields,
  and fails for the tic store: \<open>syncTicLogs\<close> writes \<open>get()\<close>, the whole state, while
  \<open>isLoading\<close> is still set. Here a create fails, which sets the store error and leaves
  the log pending, and the sync that follows is accepted: the snapshot it writes holds
  \<open>isLoading = true\<close> and the error of the failed create.
\<close>

theorem syncTicLogs_snapshot_holds_transient_state:
  "(case storage (snd (syncTicLogs (Accepted [log0]) 30
            (snd (logTic logData0 ''tmp-1'' Rejected 20 world0)))) TIC_STORAGE_KEY of
      Some (TicSnapshot s) \<Rightarrow>
        isLoading s \<and> error s = Some ''Failed to sync tic log'' \<and> lastSync s = Some 1050
    | _ \<Rightarrow> False)"
  by (simp add: syncTicLogs_def logTic_def world_defs example_defs newLog_of_def Let_def)

subsection \<open>Loading at startup\<close>

lemma map_of_assign: "map_of (assign k v fs) k' = (if k' = k then Some v else map_of fs k')"
  by (induction fs) auto

lemma keys_assign: "fst ` set (assign k v fs) = insert k (fst ` set fs)"
proof (induction fs)
  case Nil
  then show ?case by simp
next
  case (Cons f fs)
  obtain k' v' where f: "f = (k', v')" by (cases f)
  show ?case
  proof (cases "k = k'")
    case True
    with f show ?thesis by simp
  next
    case False
    with f Cons.IH show ?thesis by auto
  qed
qed

lemma distinct_assign: "distinct (map fst fs) \<Longrightarrow> distinct (map fst (assign k v fs))"
proof (induction fs)
  case Nil
  then show ?case by simp
next
  case (Cons f fs)
  obtain k' v' where f: "f = (k', v')" by (cases f)
  show ?case
  proof (cases "k = k'")
    case True
    with Cons.prems f show ?thesis by simp
  next
    case False
    have "k' \<notin> fst ` set (assign k v fs)"
      using Cons.prems f False by (simp add: keys_assign)
    with Cons f False show ?thesis by simp
  qed
qed

lemma map_of_spread:
  "distinct (map fst fs) \<Longrightarrow>
     map_of (spread a fs) k = (case map_of fs k of Some v \<Rightarrow> Some v | None \<Rightarrow> map_of a k)"
  unfolding spread_def
proof (induction fs arbitrary: a)
  case Nil
  then show ?case by simp
next
  case (Cons f fs)
  obtain k' v' where f: "f = (k', v')" by (cases f)
  have "map_of fs k' = None"
    using Cons.prems f by (simp add: map_of_eq_None_iff)
  with Cons f show ?case
    by (auto simp: map_of_assign split: option.splits)
qed

lemma load_missing_or_malformed:
  assumes "stored = None \<or> stored = Some [] \<or>
           (\<exists>content. stored = Some content \<and> parse content = None)"
  shows "tic_startup parse newDate t0 stored = tic_initialState t0 \<and>
         sug_startup parse stored = sug_initialState"
  using assms
  by (auto simp: tic_startup_def tic_loadPersistedState_def sug_startup_def
      sug_loadPersistedState_def spread_def)

lemma sug_startup_keeps_serialized:
  assumes "parse content = Some (JObj fs)" "content \<noteq> []" "distinct (map fst fs)"
    and "map_of fs k = Some v"
  shows "map_of (sug_startup parse (Some content)) k = Some v"
  using assms
  by (simp add: sug_startup_def sug_loadPersistedState_def map_of_spread)

lemma tic_startup_lastSync:
  assumes "parse content = Some (JObj fs)" "content \<noteq> []" "distinct (map fst fs)"
    and "map_of fs ''lastSync'' = Some v" "truthy v"
  shows "map_of (tic_startup parse newDate t0 (Some content)) ''lastSync'' =
           Some (JDate (newDate v))"
  using assms
  by (simp add: tic_startup_def tic_loadPersistedState_def map_of_spread map_of_assign
      distinct_assign Let_def)

text \<open>
  C9 holds for a missing or malformed snapshot (\<open>load_missing_or_malformed\<close>) and for
  the dates the tic store rebuilds (\<open>tic_startup_lastSync\<close>), and fails for the
  suggestion store, whose \<open>loadPersistedState\<close> returns what \<open>JSON.parse\<close> returns. On
  the snapshot of the spec's scenario the suggestion store starts with \<open>lastSync\<close> still
  the string and the queue empty, where the tic store, on the same text, starts with
  the date of that instant.
\<close>

theorem sug_startup_lastSync_stays_string:
  "map_of (sug_startup parse_example (Some stored_snapshot)) ''lastSync'' =
     Some (JStr ''2024-01-01T00:00:00Z'') \<and>
   map_of (sug_startup parse_example (Some stored_snapshot)) ''operationQueue'' =
     Some (JArr []) \<and>
   map_of (tic_startup parse_example newDate_example 1800000000000 (Some stored_snapshot))
     ''lastSync'' = Some (JDate (Some 1704067200000))"
  by (simp add: sug_startup_def sug_loadPersistedState_def tic_startup_def
      tic_loadPersistedState_def parse_example_def newDate_example_def stored_snapshot_def
      spread_def sug_initialState_def tic_initialState_def tic_initial_filterSettings_def)

end
